theory Spec2Isabelle
  imports Main
begin

section \<open>pyrabbit.http: the HTTP client of the broker's management API\<close>

text \<open>
  A shallow embedding of \<^verbatim>\<open>src/pyrabbit/http.py\<close>. Python exceptions are values of the
  type \<open>error\<close> in the left summand of a result; the instance \<^verbatim>\<open>self\<close> and the
  requests sent so far are threaded through every method as a \<open>state\<close>. The three
  library calls the module makes (\<^verbatim>\<open>httplib2.Http.request\<close>, \<^verbatim>\<open>bytes.decode\<close>,
  \<^verbatim>\<open>json.loads\<close>) are parameters, collected in the record \<open>libs\<close>: nothing is assumed
  about what they return.
\<close>

subsection \<open>Data\<close>

type_synonym bytes = string

text \<open>The response object of the transport: only \<^verbatim>\<open>status\<close> and \<^verbatim>\<open>reason\<close> are read.\<close>

record response =
  status :: int
  reason :: string

text \<open>
  An instance of Python's \<^verbatim>\<open>Exception\<close> raised inside a library call (what
  \<^verbatim>\<open>except Exception\<close> catches), by the two strings the module reads off it:
  \<^verbatim>\<open>"%s" % type(out)\<close> and \<^verbatim>\<open>"%s" % out\<close>. What is raised outside that class
  (\<^verbatim>\<open>KeyboardInterrupt\<close>, \<^verbatim>\<open>SystemExit\<close>) ends the program and is not modelled.
\<close>

record pyexn =
  exn_type :: string
  exn_str :: string

text \<open>
  The exception classes of the module, with the fields their constructors store:
  \<^verbatim>\<open>HTTPError(status, reason, path)\<close> (its \<^verbatim>\<open>output\<close> string is a function of these
  three), \<^verbatim>\<open>NetworkError(msg)\<close>, \<^verbatim>\<open>APIError(msg)\<close>. \<open>KeyError\<close> is what a
  dictionary lookup raises, \<open>TypeError\<close> and \<open>ValueError\<close> what the \<^verbatim>\<open>%\<close> operator
  raises; \<open>Raised\<close> is an exception of one of the two decoders, which the module lets
  through.
\<close>

datatype error =
    HTTPError int string string
  | NetworkError string
  | APIError string
  | KeyError string
  | TypeError string
  | ValueError string
  | Raised pyexn

text \<open>The object \<^verbatim>\<open>httplib2.Http()\<close> after \<^verbatim>\<open>add_credentials\<close>.\<close>

record Http =
  credentials :: "(string \<times> string) list"

record HTTPClient =
  client :: Http
  base_url :: string

text \<open>
  The state a method runs in: the instance, and the requests handed to the transport so
  far (path and method, oldest first).
\<close>

record state =
  this :: HTTPClient
  wire :: "(string \<times> string) list"

text \<open>
  The libraries. \<open>request\<close> is \<^verbatim>\<open>self.client.request(path, reqtype)\<close>: its answer may
  depend on the \<^verbatim>\<open>Http\<close> object and on everything sent before.
\<close>

record 'j libs =
  request :: "Http \<Rightarrow> (string \<times> string) list \<Rightarrow> string \<Rightarrow> string \<Rightarrow> pyexn + (response \<times> bytes)"
  decode :: "bytes \<Rightarrow> pyexn + string"
  loads :: "string \<Rightarrow> pyexn + 'j"

subsection \<open>String formatting and path joining\<close>

text \<open>
  The operator \<^verbatim>\<open>template % args\<close> for templates whose conversions are all \<^verbatim>\<open>%s\<close> and
  arguments that are strings: each \<^verbatim>\<open>%s\<close> takes the next argument, which is not scanned
  again; too few or too many arguments raise \<^verbatim>\<open>TypeError\<close>. No template of the module
  has another conversion; on one the model raises \<^verbatim>\<open>ValueError\<close>, which is not what Python
  does for all of them.
\<close>

fun fmt :: "string \<Rightarrow> string list \<Rightarrow> error + string" where
  "fmt [] [] = Inr []"
| "fmt [] (a # as) = Inl (TypeError ''not all arguments converted during string formatting'')"
| "fmt [c] as =
     (if c = CHR ''%'' then Inl (ValueError ''incomplete format'')
      else map_sum id ((#) c) (fmt [] as))"
| "fmt (c # d # t) as =
     (if c = CHR ''%'' then
        (if d = CHR ''s'' then
           (case as of
              [] \<Rightarrow> Inl (TypeError ''not enough arguments for format string'')
            | a # as' \<Rightarrow> map_sum id ((@) a) (fmt t as'))
         else Inl (ValueError ''unsupported format character''))
      else map_sum id ((#) c) (fmt (d # t) as))"

text \<open>
  \<^verbatim>\<open>os.path.join(a, b)\<close> as \<^verbatim>\<open>posixpath\<close> defines it, for two components: a second
  component that starts with a slash replaces the first; otherwise the two are put
  together, with a slash between them unless the first is empty or ends in one.
\<close>

definition path_join :: "string \<Rightarrow> string \<Rightarrow> string" where
  "path_join a b =
     (if b \<noteq> [] \<and> hd b = CHR ''/'' then b
      else if a = [] \<or> last a = CHR ''/'' then a @ b
      else a @ ''/'' @ b)"

subsection \<open>The class HTTPClient\<close>

text \<open>The class attribute \<^verbatim>\<open>urls\<close>, in the order of the source.\<close>

definition urls :: "(string \<times> string) list" where
  "urls =
    [(''overview'', ''overview''),
     (''all_queues'', ''queues''),
     (''all_exchanges'', ''exchanges''),
     (''all_channels'', ''channels''),
     (''all_connections'', ''connections''),
     (''all_nodes'', ''nodes''),
     (''all_vhosts'', ''vhosts''),
     (''all_users'', ''users''),
     (''whoami'', ''whoami''),
     (''queues_by_vhost'', ''queues/%s''),
     (''queues_by_name'', ''queues/%s/%s''),
     (''exchanges_by_vhost'', ''exchanges/%s''),
     (''exchange_by_name'', ''exchanges/%s/%s''),
     (''live_test'', ''aliveness-test/%s''),
     (''purge_queue'', ''queues/%s/%s/contents''),
     (''connections_by_name'', ''connections/%s'')]"

text \<open>\<^verbatim>\<open>HTTPClient.urls[key]\<close>.\<close>

definition urls_item :: "string \<Rightarrow> error + string" where
  "urls_item key = (case map_of urls key of None \<Rightarrow> Inl (KeyError key) | Some t \<Rightarrow> Inr t)"

text \<open>Sequencing of two steps that may raise.\<close>

definition and_then :: "error + 'a \<Rightarrow> ('a \<Rightarrow> error + 'b) \<Rightarrow> error + 'b" where
  "and_then m f = (case m of Inl e \<Rightarrow> Inl e | Inr x \<Rightarrow> f x)"

text \<open>\<^verbatim>\<open>__init__(self, server, uname, passwd)\<close>.\<close>

definition init :: "string \<Rightarrow> string \<Rightarrow> string \<Rightarrow> error + HTTPClient" where
  "init server uname passwd =
     and_then (fmt ''http://%s/api'' [server])
       (\<lambda>b. Inr \<lparr>client = \<lparr>credentials = [(uname, passwd)]\<rparr>, base_url = b\<rparr>)"

definition decode_json_content :: "'j libs \<Rightarrow> bytes \<Rightarrow> error + 'j" where
  "decode_json_content L content =
     (case decode L content of
        Inl x \<Rightarrow> Inl (Raised x)
      | Inr str_ct \<Rightarrow>
          (case loads L str_ct of
             Inl x \<Rightarrow> Inl (Raised x)
           | Inr py_ct \<Rightarrow> Inr py_ct))"

text \<open>
  \<^verbatim>\<open>do_call(self, path, reqtype)\<close>. The request is on the wire whatever the transport
  answers. The message of the \<^verbatim>\<open>NetworkError\<close> is \<^verbatim>\<open>"Error: %s %s" % (type(out), out)\<close>.
\<close>

definition do_call :: "'j libs \<Rightarrow> string \<Rightarrow> string \<Rightarrow> state \<Rightarrow> (error + response \<times> bytes) \<times> state" where
  "do_call L path reqtype s =
     (let s' = s\<lparr>wire := wire s @ [(path, reqtype)]\<rparr> in
      case request L (client (this s)) (wire s) path reqtype of
        Inl out \<Rightarrow>
          (case fmt ''Error: %s %s'' [exn_type out, exn_str out] of
             Inl e \<Rightarrow> (Inl e, s')
           | Inr msg \<Rightarrow> (Inl (NetworkError msg), s'))
      | Inr (resp, content) \<Rightarrow>
          if status resp \<noteq> 200 then (Inl (HTTPError (status resp) (reason resp) path), s')
          else (Inr (resp, content), s'))"

text \<open>
  The methods, in the order of the source. Each one builds its path first (a lookup in
  \<^verbatim>\<open>urls\<close>, a \<^verbatim>\<open>%\<close>, an \<^verbatim>\<open>os.path.join\<close>), then calls \<open>do_call\<close> once; an exception
  that no \<^verbatim>\<open>except\<close> clause of the method matches leaves the method as it is.
\<close>

text \<open>
  \<^verbatim>\<open>is_alive(self, vhost='%2F')\<close>. The message of the \<^verbatim>\<open>APIError\<close> is
  \<^verbatim>\<open>"No vhost named '%s'" % vhost\<close>.
\<close>

definition is_alive :: "'j libs \<Rightarrow> string \<Rightarrow> state \<Rightarrow> (error + bool) \<times> state" where
  "is_alive L vhost s =
     (case and_then (urls_item ''live_test'') (\<lambda>t. fmt t [vhost]) of
        Inl e \<Rightarrow> (Inl e, s)
      | Inr p \<Rightarrow>
          (let uri = path_join (base_url (this s)) p in
           case do_call L uri ''GET'' s of
             (Inl e, s') \<Rightarrow>
               (case e of
                  HTTPError st rs pa \<Rightarrow>
                    if st = 404 then
                      (case fmt (''No vhost named '' @ [CHR 0x27] @ ''%s'' @ [CHR 0x27]) [vhost] of
                         Inl e' \<Rightarrow> (Inl e', s')
                       | Inr msg \<Rightarrow> (Inl (APIError msg), s'))
                    else (Inl e, s')
                | _ \<Rightarrow> (Inl e, s'))
           | (Inr (resp, content), s') \<Rightarrow>
               if status resp = 200 then (Inr True, s') else (Inr False, s')))"

text \<open>\<^verbatim>\<open>is_alive()\<close>, the call that leaves \<^verbatim>\<open>vhost\<close> at its default.\<close>

definition is_alive_default :: "'j libs \<Rightarrow> state \<Rightarrow> (error + bool) \<times> state" where
  "is_alive_default L s = is_alive L ''%2F'' s"

definition get_whoami :: "'j libs \<Rightarrow> state \<Rightarrow> (error + 'j) \<times> state" where
  "get_whoami L s =
     (case urls_item ''whoami'' of
        Inl e \<Rightarrow> (Inl e, s)
      | Inr path \<Rightarrow>
          (case do_call L (path_join (base_url (this s)) path) ''GET'' s of
             (Inl e, s') \<Rightarrow> (Inl e, s')
           | (Inr (resp, content), s') \<Rightarrow> (decode_json_content L content, s')))"

definition get_users :: "'j libs \<Rightarrow> state \<Rightarrow> (error + 'j) \<times> state" where
  "get_users L s =
     (case urls_item ''all_users'' of
        Inl e \<Rightarrow> (Inl e, s)
      | Inr p \<Rightarrow>
          (let path = path_join (base_url (this s)) p in
           case do_call L path ''GET'' s of
             (Inl e, s') \<Rightarrow>
               (case e of
                  HTTPError st rs pa \<Rightarrow>
                    if st = 401 then (Inl (APIError ''Only admin can access user data''), s')
                    else (Inl e, s')
                | _ \<Rightarrow> (Inl e, s'))
           | (Inr (resp, content), s') \<Rightarrow> (decode_json_content L content, s')))"

definition get_overview :: "'j libs \<Rightarrow> state \<Rightarrow> (error + 'j) \<times> state" where
  "get_overview L s =
     (case urls_item ''overview'' of
        Inl e \<Rightarrow> (Inl e, s)
      | Inr path \<Rightarrow>
          (case do_call L (path_join (base_url (this s)) path) ''GET'' s of
             (Inl e, s') \<Rightarrow> (Inl e, s')
           | (Inr (resp, content), s') \<Rightarrow> (decode_json_content L content, s')))"

definition get_all_vhosts :: "'j libs \<Rightarrow> state \<Rightarrow> (error + 'j) \<times> state" where
  "get_all_vhosts L s =
     (case urls_item ''all_vhosts'' of
        Inl e \<Rightarrow> (Inl e, s)
      | Inr path \<Rightarrow>
          (case do_call L (path_join (base_url (this s)) path) ''GET'' s of
             (Inl e, s') \<Rightarrow> (Inl e, s')
           | (Inr (resp, content), s') \<Rightarrow> (decode_json_content L content, s')))"

text \<open>
  An optional string argument is \<^verbatim>\<open>None\<close> or a string; \<^verbatim>\<open>if vhost:\<close> takes its else
  branch for \<^verbatim>\<open>None\<close> and for the empty string.
\<close>

definition get_queues :: "'j libs \<Rightarrow> string option \<Rightarrow> state \<Rightarrow> (error + 'j) \<times> state" where
  "get_queues L vhost s =
     (case (case vhost of
              Some v \<Rightarrow>
                if v \<noteq> [] then and_then (urls_item ''queues_by_vhost'') (\<lambda>t. fmt t [v])
                else urls_item ''all_queues''
            | None \<Rightarrow> urls_item ''all_queues'') of
        Inl e \<Rightarrow> (Inl e, s)
      | Inr path \<Rightarrow>
          (case do_call L (path_join (base_url (this s)) path) ''GET'' s of
             (Inl e, s') \<Rightarrow> (Inl e, s')
           | (Inr (resp, content), s') \<Rightarrow> (decode_json_content L content, s')))"

definition get_queue :: "'j libs \<Rightarrow> string \<Rightarrow> string \<Rightarrow> state \<Rightarrow> (error + 'j) \<times> state" where
  "get_queue L vhost name s =
     (case and_then (urls_item ''queues_by_name'') (\<lambda>t. fmt t [vhost, name]) of
        Inl e \<Rightarrow> (Inl e, s)
      | Inr path \<Rightarrow>
          (case do_call L (path_join (base_url (this s)) path) ''GET'' s of
             (Inl e, s') \<Rightarrow> (Inl e, s')
           | (Inr (resp, content), s') \<Rightarrow> (decode_json_content L content, s')))"

definition purge_queue :: "'j libs \<Rightarrow> string \<Rightarrow> string \<Rightarrow> state \<Rightarrow> (error + bool) \<times> state" where
  "purge_queue L vhost name s =
     (case and_then (urls_item ''purge_queue'') (\<lambda>t. fmt t [vhost, name]) of
        Inl e \<Rightarrow> (Inl e, s)
      | Inr path \<Rightarrow>
          (case do_call L (path_join (base_url (this s)) path) ''DELETE'' s of
             (Inl e, s') \<Rightarrow>
               (case e of
                  HTTPError st rs pa \<Rightarrow>
                    if st = 204 then (Inr True, s') else (Inl e, s')
                | _ \<Rightarrow> (Inl e, s'))
           | (Inr _, s') \<Rightarrow> (Inr True, s')))"

definition get_exchanges :: "'j libs \<Rightarrow> string option \<Rightarrow> state \<Rightarrow> (error + 'j) \<times> state" where
  "get_exchanges L vhost s =
     (case (case vhost of
              Some v \<Rightarrow>
                if v \<noteq> [] then and_then (urls_item ''exchanges_by_vhost'') (\<lambda>t. fmt t [v])
                else urls_item ''all_exchanges''
            | None \<Rightarrow> urls_item ''all_exchanges'') of
        Inl e \<Rightarrow> (Inl e, s)
      | Inr path \<Rightarrow>
          (case do_call L (path_join (base_url (this s)) path) ''GET'' s of
             (Inl e, s') \<Rightarrow> (Inl e, s')
           | (Inr (resp, content), s') \<Rightarrow> (decode_json_content L content, s')))"

definition get_exchange :: "'j libs \<Rightarrow> string \<Rightarrow> string \<Rightarrow> state \<Rightarrow> (error + 'j) \<times> state" where
  "get_exchange L vhost name s =
     (case and_then (urls_item ''exchange_by_name'') (\<lambda>t. fmt t [vhost, name]) of
        Inl e \<Rightarrow> (Inl e, s)
      | Inr path \<Rightarrow>
          (case do_call L (path_join (base_url (this s)) path) ''GET'' s of
             (Inl e, s') \<Rightarrow> (Inl e, s')
           | (Inr (resp, content), s') \<Rightarrow> (decode_json_content L content, s')))"

text \<open>\<^verbatim>\<open>get_connections(self, name=None)\<close>: neither branch applies \<^verbatim>\<open>%\<close> to the entry.\<close>

definition get_connections :: "'j libs \<Rightarrow> string option \<Rightarrow> state \<Rightarrow> (error + 'j) \<times> state" where
  "get_connections L name s =
     (case (case name of
              Some n \<Rightarrow>
                if n \<noteq> [] then urls_item ''connections_by_name''
                else urls_item ''all_connections''
            | None \<Rightarrow> urls_item ''all_connections'') of
        Inl e \<Rightarrow> (Inl e, s)
      | Inr path \<Rightarrow>
          (case do_call L (path_join (base_url (this s)) path) ''GET'' s of
             (Inl e, s') \<Rightarrow> (Inl e, s')
           | (Inr (resp, content), s') \<Rightarrow> (decode_json_content L content, s')))"

definition get_channels :: "'j libs \<Rightarrow> state \<Rightarrow> (error + 'j) \<times> state" where
  "get_channels L s =
     (case urls_item ''all_channels'' of
        Inl e \<Rightarrow> (Inl e, s)
      | Inr path \<Rightarrow>
          (case do_call L (path_join (base_url (this s)) path) ''GET'' s of
             (Inl e, s') \<Rightarrow> (Inl e, s')
           | (Inr (resp, content), s') \<Rightarrow> (decode_json_content L content, s')))"

subsection \<open>Any public operation\<close>

text \<open>
  A call of one of the twelve public methods, with its arguments, and what it returns:
  \<open>is_alive\<close> and \<open>purge_queue\<close> return a truth value, the others the decoded body.
\<close>

datatype operation =
    Is_alive string
  | Get_whoami
  | Get_users
  | Get_overview
  | Get_all_vhosts
  | Get_queues "string option"
  | Get_queue string string
  | Purge_queue string string
  | Get_exchanges "string option"
  | Get_exchange string string
  | Get_connections "string option"
  | Get_channels

datatype 'j retval = Truth bool | Decoded 'j

definition returning :: "('a \<Rightarrow> 'b) \<Rightarrow> (error + 'a) \<times> state \<Rightarrow> (error + 'b) \<times> state" where
  "returning f r = (map_sum id f (fst r), snd r)"

fun call :: "'j libs \<Rightarrow> operation \<Rightarrow> state \<Rightarrow> (error + 'j retval) \<times> state" where
  "call L (Is_alive vhost) s = returning Truth (is_alive L vhost s)"
| "call L Get_whoami s = returning Decoded (get_whoami L s)"
| "call L Get_users s = returning Decoded (get_users L s)"
| "call L Get_overview s = returning Decoded (get_overview L s)"
| "call L Get_all_vhosts s = returning Decoded (get_all_vhosts L s)"
| "call L (Get_queues vhost) s = returning Decoded (get_queues L vhost s)"
| "call L (Get_queue vhost name) s = returning Decoded (get_queue L vhost name s)"
| "call L (Purge_queue vhost name) s = returning Truth (purge_queue L vhost name s)"
| "call L (Get_exchanges vhost) s = returning Decoded (get_exchanges L vhost s)"
| "call L (Get_exchange vhost name) s = returning Decoded (get_exchange L vhost name s)"
| "call L (Get_connections name) s = returning Decoded (get_connections L name s)"
| "call L Get_channels s = returning Decoded (get_channels L s)"

text \<open>The methods that return the decoded body of a \<^verbatim>\<open>GET\<close>.\<close>

fun is_get :: "operation \<Rightarrow> bool" where
  "is_get (Is_alive vhost) = False"
| "is_get (Purge_queue vhost name) = False"
| "is_get _ = True"

subsection \<open>Auxiliary definitions for the statements\<close>

text \<open>
  The lines that end every \<^verbatim>\<open>GET\<close> method without an \<^verbatim>\<open>except\<close> clause, from the path
  they built: join it to the base URL, call \<open>do_call\<close>, decode the content.
\<close>

definition fetch :: "'j libs \<Rightarrow> string \<Rightarrow> state \<Rightarrow> (error + 'j) \<times> state" where
  "fetch L path s =
     (case do_call L (path_join (base_url (this s)) path) ''GET'' s of
        (Inl e, s') \<Rightarrow> (Inl e, s')
      | (Inr (resp, content), s') \<Rightarrow> (decode_json_content L content, s'))"

text \<open>
  The path each operation is to request according to the specification: the entry of
  the table \<open>urls\<close> for the operation, with the operation's arguments substituted for
  its placeholders. This definition follows the specification's words, not a method of
  the source; for an optional argument that \<^verbatim>\<open>if\<close> takes as false it is the entry for
  all objects. It is compared below with what the methods put on the wire.
\<close>

fun spec_entry :: "operation \<Rightarrow> string \<times> string list" where
  "spec_entry (Is_alive vhost) = (''live_test'', [vhost])"
| "spec_entry Get_whoami = (''whoami'', [])"
| "spec_entry Get_users = (''all_users'', [])"
| "spec_entry Get_overview = (''overview'', [])"
| "spec_entry Get_all_vhosts = (''all_vhosts'', [])"
| "spec_entry (Get_queues None) = (''all_queues'', [])"
| "spec_entry (Get_queues (Some v)) =
     (if v \<noteq> [] then (''queues_by_vhost'', [v]) else (''all_queues'', []))"
| "spec_entry (Get_queue vhost name) = (''queues_by_name'', [vhost, name])"
| "spec_entry (Purge_queue vhost name) = (''purge_queue'', [vhost, name])"
| "spec_entry (Get_exchanges None) = (''all_exchanges'', [])"
| "spec_entry (Get_exchanges (Some v)) =
     (if v \<noteq> [] then (''exchanges_by_vhost'', [v]) else (''all_exchanges'', []))"
| "spec_entry (Get_exchange vhost name) = (''exchange_by_name'', [vhost, name])"
| "spec_entry (Get_connections None) = (''all_connections'', [])"
| "spec_entry (Get_connections (Some n)) =
     (if n \<noteq> [] then (''connections_by_name'', [n]) else (''all_connections'', []))"
| "spec_entry Get_channels = (''all_channels'', [])"

definition spec_path :: "operation \<Rightarrow> error + string" where
  "spec_path op = and_then (urls_item (fst (spec_entry op))) (\<lambda>t. fmt t (snd (spec_entry op)))"

text \<open>The HTTP method of each operation.\<close>

fun reqtype_of :: "operation \<Rightarrow> string" where
  "reqtype_of (Purge_queue vhost name) = ''DELETE''"
| "reqtype_of _ = ''GET''"

text \<open>
  The statuses for which an \<^verbatim>\<open>except HTTPError\<close> clause of the operation does something
  other than raising the error again: 404 in \<open>is_alive\<close>, 401 in \<open>get_users\<close>, 204 in
  \<open>purge_queue\<close>.
\<close>

fun translated :: "operation \<Rightarrow> int \<Rightarrow> bool" where
  "translated (Is_alive vhost) st = (st = 404)"
| "translated Get_users st = (st = 401)"
| "translated (Purge_queue vhost name) st = (st = 204)"
| "translated _ st = False"

text \<open>
  Libraries for the examples: a broker that answers every request with one status,
  reason and body, a broker that cannot be reached, and a broker that gives one answer
  to the first request it sees and status 200 to every later one; all with decoders that
  accept every input and return it.
\<close>

definition answering :: "int \<Rightarrow> string \<Rightarrow> bytes \<Rightarrow> string libs" where
  "answering st rs body =
     \<lparr>request = (\<lambda>h sent path reqtype. Inr (\<lparr>status = st, reason = rs\<rparr>, body)),
      decode = Inr, loads = Inr\<rparr>"

definition unreachable :: "string libs" where
  "unreachable =
     \<lparr>request = (\<lambda>h sent path reqtype.
        Inl \<lparr>exn_type = ''socket.error'', exn_str = ''Connection refused''\<rparr>),
      decode = Inr, loads = Inr\<rparr>"

definition first_then :: "pyexn + response \<times> bytes \<Rightarrow> string libs" where
  "first_then answer =
     \<lparr>request = (\<lambda>h sent path reqtype.
        if sent = [] then answer else Inr (\<lparr>status = 200, reason = ''OK''\<rparr>, ''[]'')),
      decode = Inr, loads = Inr\<rparr>"

text \<open>The instance \<^verbatim>\<open>HTTPClient('localhost:55672', 'guest', 'guest')\<close>, before any call.\<close>

definition guest :: HTTPClient where
  "guest = \<lparr>client = \<lparr>credentials = [(''guest'', ''guest'')]\<rparr>,
            base_url = ''http://localhost:55672/api''\<rparr>"

definition fresh :: state where
  "fresh = \<lparr>this = guest, wire = []\<rparr>"

section \<open>Properties\<close>

subsection \<open>Formatting and joining\<close>

text \<open>Every lookup the methods make finds its key.\<close>

lemma urls_item_simps:
  "urls_item ''overview'' = Inr ''overview''"
  "urls_item ''all_queues'' = Inr ''queues''"
  "urls_item ''all_exchanges'' = Inr ''exchanges''"
  "urls_item ''all_channels'' = Inr ''channels''"
  "urls_item ''all_connections'' = Inr ''connections''"
  "urls_item ''all_vhosts'' = Inr ''vhosts''"
  "urls_item ''all_users'' = Inr ''users''"
  "urls_item ''whoami'' = Inr ''whoami''"
  "urls_item ''queues_by_vhost'' = Inr ''queues/%s''"
  "urls_item ''queues_by_name'' = Inr ''queues/%s/%s''"
  "urls_item ''exchanges_by_vhost'' = Inr ''exchanges/%s''"
  "urls_item ''exchange_by_name'' = Inr ''exchanges/%s/%s''"
  "urls_item ''live_test'' = Inr ''aliveness-test/%s''"
  "urls_item ''purge_queue'' = Inr ''queues/%s/%s/contents''"
  "urls_item ''connections_by_name'' = Inr ''connections/%s''"
  by (simp_all add: urls_item_def urls_def)

text \<open>
  Every \<^verbatim>\<open>%\<close> of the module has as many arguments as its template has placeholders, so it
  returns the template with the arguments in their places.
\<close>

lemma fmt_error_message:
  "fmt ''Error: %s %s'' [a, b] = Inr (''Error: '' @ a @ '' '' @ b)"
  by simp

lemma fmt_templates:
  "fmt ''http://%s/api'' [server] = Inr (''http://'' @ server @ ''/api'')"
  "fmt ''queues/%s'' [v] = Inr (''queues/'' @ v)"
  "fmt ''queues/%s/%s'' [v, n] = Inr (''queues/'' @ v @ ''/'' @ n)"
  "fmt ''exchanges/%s'' [v] = Inr (''exchanges/'' @ v)"
  "fmt ''exchanges/%s/%s'' [v, n] = Inr (''exchanges/'' @ v @ ''/'' @ n)"
  "fmt ''aliveness-test/%s'' [v] = Inr (''aliveness-test/'' @ v)"
  "fmt ''queues/%s/%s/contents'' [v, n] = Inr (''queues/'' @ v @ ''/'' @ n @ ''/contents'')"
  "fmt ''connections/%s'' [n] = Inr (''connections/'' @ n)"
  "fmt (''No vhost named '' @ [CHR 0x27] @ ''%s'' @ [CHR 0x27]) [v] = Inr (''No vhost named '' @ [CHR 0x27] @ v @ [CHR 0x27])"
  by simp_all

lemma fmt_plain: "fmt ''overview'' [] = Inr ''overview''" "fmt ''queues'' [] = Inr ''queues''"
  "fmt ''exchanges'' [] = Inr ''exchanges''" "fmt ''channels'' [] = Inr ''channels''"
  "fmt ''connections'' [] = Inr ''connections''" "fmt ''vhosts'' [] = Inr ''vhosts''"
  "fmt ''users'' [] = Inr ''users''" "fmt ''whoami'' [] = Inr ''whoami''"
  by simp_all

text \<open>The constructor sets the base URL \<^verbatim>\<open>http://<server>/api\<close> and never fails.\<close>

lemma init_base_url:
  "init server uname passwd =
     Inr \<lparr>client = \<lparr>credentials = [(uname, passwd)]\<rparr>, base_url = ''http://'' @ server @ ''/api''\<rparr>"
  by (simp add: init_def and_then_def)

lemma init_guest: "init ''localhost:55672'' ''guest'' ''guest'' = Inr guest"
  by (simp add: init_base_url guest_def)

text \<open>
  A base URL set by the constructor ends in \<^verbatim>\<open>api\<close>, and no path of the module starts
  with a slash: the join puts one slash between them.
\<close>

lemma path_join_base:
  "b \<noteq> [] \<Longrightarrow> hd b \<noteq> CHR ''/'' \<Longrightarrow>
   path_join (''http://'' @ server @ ''/api'') b = ''http://'' @ server @ ''/api/'' @ b"
  by (simp add: path_join_def)

subsection \<open>What \<open>do_call\<close> and the methods compute\<close>

text \<open>
  The state after \<open>do_call\<close> and its result, separately; then each method as a function
  of the one \<open>do_call\<close> it makes.
\<close>

lemma do_call_snd: "snd (do_call L path reqtype s) = s\<lparr>wire := wire s @ [(path, reqtype)]\<rparr>"
  by (simp add: do_call_def Let_def split: sum.splits prod.splits)

lemma do_call_fst:
  "fst (do_call L path reqtype s) =
     (case request L (client (this s)) (wire s) path reqtype of
        Inl out \<Rightarrow> Inl (NetworkError (''Error: '' @ exn_type out @ '' '' @ exn_str out))
      | Inr (resp, content) \<Rightarrow>
          if status resp \<noteq> 200 then Inl (HTTPError (status resp) (reason resp) path)
          else Inr (resp, content))"
  by (simp add: do_call_def Let_def split: sum.splits prod.splits)

lemma do_call_answering:
  "fst (do_call (answering st rs body) path reqtype s) =
     (if st \<noteq> 200 then Inl (HTTPError st rs path) else Inr (\<lparr>status = st, reason = rs\<rparr>, body))"
  by (simp add: do_call_fst answering_def)

lemma fetch_snd:
  "snd (fetch L p s) = s\<lparr>wire := wire s @ [(path_join (base_url (this s)) p, ''GET'')]\<rparr>"
  by (simp add: fetch_def case_prod_unfold do_call_snd split: sum.splits)

lemma fetch_fst:
  "fst (fetch L p s) =
     (case fst (do_call L (path_join (base_url (this s)) p) ''GET'' s) of
        Inl e \<Rightarrow> Inl e
      | Inr (resp, content) \<Rightarrow> decode_json_content L content)"
  by (simp add: fetch_def case_prod_unfold split: sum.splits)

lemma get_whoami_fetch: "get_whoami L s = fetch L ''whoami'' s"
  by (simp add: get_whoami_def fetch_def urls_item_simps)

lemma get_overview_fetch: "get_overview L s = fetch L ''overview'' s"
  by (simp add: get_overview_def fetch_def urls_item_simps)

lemma get_all_vhosts_fetch: "get_all_vhosts L s = fetch L ''vhosts'' s"
  by (simp add: get_all_vhosts_def fetch_def urls_item_simps)

lemma get_channels_fetch: "get_channels L s = fetch L ''channels'' s"
  by (simp add: get_channels_def fetch_def urls_item_simps)

lemma get_queues_fetch:
  "get_queues L vhost s =
     fetch L (case vhost of Some v \<Rightarrow> if v \<noteq> [] then ''queues/'' @ v else ''queues''
              | None \<Rightarrow> ''queues'') s"
  by (simp add: get_queues_def fetch_def urls_item_simps fmt_templates and_then_def
      split: option.splits)

lemma get_exchanges_fetch:
  "get_exchanges L vhost s =
     fetch L (case vhost of Some v \<Rightarrow> if v \<noteq> [] then ''exchanges/'' @ v else ''exchanges''
              | None \<Rightarrow> ''exchanges'') s"
  by (simp add: get_exchanges_def fetch_def urls_item_simps fmt_templates and_then_def
      split: option.splits)

lemma get_queue_fetch: "get_queue L vhost name s = fetch L (''queues/'' @ vhost @ ''/'' @ name) s"
  by (simp add: get_queue_def fetch_def urls_item_simps fmt_templates and_then_def)

lemma get_exchange_fetch:
  "get_exchange L vhost name s = fetch L (''exchanges/'' @ vhost @ ''/'' @ name) s"
  by (simp add: get_exchange_def fetch_def urls_item_simps fmt_templates and_then_def)

lemma get_connections_fetch:
  "get_connections L name s =
     fetch L (case name of Some n \<Rightarrow> if n \<noteq> [] then ''connections/%s'' else ''connections''
              | None \<Rightarrow> ''connections'') s"
  by (simp add: get_connections_def fetch_def urls_item_simps split: option.splits)

lemma get_users_snd:
  "snd (get_users L s) = s\<lparr>wire := wire s @ [(path_join (base_url (this s)) ''users'', ''GET'')]\<rparr>"
  by (simp add: get_users_def urls_item_simps Let_def case_prod_unfold do_call_snd
      split: sum.splits error.splits)

lemma get_users_fst:
  "fst (get_users L s) =
     (case fst (do_call L (path_join (base_url (this s)) ''users'') ''GET'' s) of
        Inl e \<Rightarrow>
          (case e of
             HTTPError st rs pa \<Rightarrow>
               if st = 401 then Inl (APIError ''Only admin can access user data'') else Inl e
           | _ \<Rightarrow> Inl e)
      | Inr (resp, content) \<Rightarrow> decode_json_content L content)"
  by (simp add: get_users_def urls_item_simps Let_def case_prod_unfold
      split: sum.splits error.splits)

lemma is_alive_snd:
  "snd (is_alive L vhost s) =
     s\<lparr>wire := wire s @ [(path_join (base_url (this s)) (''aliveness-test/'' @ vhost), ''GET'')]\<rparr>"
  by (simp add: is_alive_def urls_item_simps fmt_templates and_then_def Let_def case_prod_unfold
      do_call_snd split: sum.splits error.splits)

lemma is_alive_fst:
  "fst (is_alive L vhost s) =
     (case fst (do_call L (path_join (base_url (this s)) (''aliveness-test/'' @ vhost)) ''GET'' s) of
        Inl e \<Rightarrow>
          (case e of
             HTTPError st rs pa \<Rightarrow>
               if st = 404
               then Inl (APIError (''No vhost named '' @ [CHR 0x27] @ vhost @ [CHR 0x27]))
               else Inl e
           | _ \<Rightarrow> Inl e)
      | Inr (resp, content) \<Rightarrow> if status resp = 200 then Inr True else Inr False)"
  by (simp add: is_alive_def urls_item_simps fmt_templates and_then_def Let_def case_prod_unfold
      split: sum.splits error.splits)

lemma purge_queue_snd:
  "snd (purge_queue L vhost name s) =
     s\<lparr>wire := wire s @
       [(path_join (base_url (this s)) (''queues/'' @ vhost @ ''/'' @ name @ ''/contents''), ''DELETE'')]\<rparr>"
  by (simp add: purge_queue_def urls_item_simps fmt_templates and_then_def case_prod_unfold
      do_call_snd split: sum.splits error.splits)

lemma purge_queue_fst:
  "fst (purge_queue L vhost name s) =
     (case fst (do_call L (path_join (base_url (this s))
                  (''queues/'' @ vhost @ ''/'' @ name @ ''/contents'')) ''DELETE'' s) of
        Inl e \<Rightarrow>
          (case e of
             HTTPError st rs pa \<Rightarrow> if st = 204 then Inr True else Inl e
           | _ \<Rightarrow> Inl e)
      | Inr rc \<Rightarrow> Inr True)"
  by (simp add: purge_queue_def urls_item_simps fmt_templates and_then_def case_prod_unfold
      split: sum.splits error.splits)

subsection \<open>Error translation\<close>

text \<open>
  Claim C1. Whatever the path and the method: when the request of the HTTP client raises,
  \<open>do_call\<close> raises \<^verbatim>\<open>NetworkError\<close>; when it answers with a status other than 200,
  \<open>do_call\<close> raises \<^verbatim>\<open>HTTPError\<close> with the status and the reason of that response and the
  requested path; when it answers with status 200, \<open>do_call\<close> returns the response and
  the content as they are. \<open>do_call\<close> raises no error of another class.
\<close>

theorem do_call_outcomes:
  "(\<forall>out. request L (client (this s)) (wire s) path reqtype = Inl out \<longrightarrow>
      fst (do_call L path reqtype s) =
        Inl (NetworkError (''Error: '' @ exn_type out @ '' '' @ exn_str out)))
   \<and> (\<forall>resp content. request L (client (this s)) (wire s) path reqtype = Inr (resp, content) \<longrightarrow>
      fst (do_call L path reqtype s) =
        (if status resp \<noteq> 200 then Inl (HTTPError (status resp) (reason resp) path)
         else Inr (resp, content)))
   \<and> (\<forall>e. fst (do_call L path reqtype s) = Inl e \<longrightarrow>
      (\<exists>msg. e = NetworkError msg) \<or> (\<exists>st rs. e = HTTPError st rs path))"
  by (auto simp: do_call_fst split: sum.splits prod.splits if_splits)

theorem do_call_outcomes_witness:
  "fst (do_call unreachable ''http://localhost:55672/api/overview'' ''GET'' fresh) =
     Inl (NetworkError ''Error: socket.error Connection refused'')
   \<and> fst (do_call (answering 500 ''Internal Server Error'' []) ''http://localhost:55672/api/overview'' ''GET'' fresh) =
     Inl (HTTPError 500 ''Internal Server Error'' ''http://localhost:55672/api/overview'')
   \<and> fst (do_call (answering 200 ''OK'' ''{}'') ''http://localhost:55672/api/overview'' ''GET'' fresh) =
     Inr (\<lparr>status = 200, reason = ''OK''\<rparr>, ''{}'')"
  using do_call_outcomes [of unreachable fresh "''http://localhost:55672/api/overview''" "''GET''"]
    do_call_outcomes [of "answering 500 ''Internal Server Error'' []" fresh
      "''http://localhost:55672/api/overview''" "''GET''"]
    do_call_outcomes [of "answering 200 ''OK'' ''{}''" fresh
      "''http://localhost:55672/api/overview''" "''GET''"]
  by (simp add: unreachable_def answering_def)

text \<open>
  Claim C2. For every vhost: when the aliveness-test request ends in an \<^verbatim>\<open>HTTPError\<close> with
  status 404, \<open>is_alive\<close> raises an \<^verbatim>\<open>APIError\<close> whose message names the vhost; an
  \<^verbatim>\<open>HTTPError\<close> with another status leaves \<open>is_alive\<close> unchanged.
\<close>

theorem is_alive_http_error:
  assumes "fst (do_call L (path_join (base_url (this s)) (''aliveness-test/'' @ vhost)) ''GET'' s) =
             Inl (HTTPError st rs pa)"
  shows "fst (is_alive L vhost s) =
           (if st = 404 then Inl (APIError (''No vhost named '' @ [CHR 0x27] @ vhost @ [CHR 0x27]))
            else Inl (HTTPError st rs pa))"
  using assms by (simp add: is_alive_fst)

theorem is_alive_http_error_witness:
  "fst (is_alive (answering 404 ''Not Found'' []) ''prod'' fresh) =
     Inl (APIError (''No vhost named '' @ [CHR 0x27] @ ''prod'' @ [CHR 0x27]))
   \<and> fst (is_alive (answering 500 ''Internal Server Error'' []) ''prod'' fresh) =
     Inl (HTTPError 500 ''Internal Server Error'' ''http://localhost:55672/api/aliveness-test/prod'')"
proof -
  have a: "fst (do_call (answering 404 ''Not Found'' [])
             (path_join (base_url (this fresh)) (''aliveness-test/'' @ ''prod'')) ''GET'' fresh) =
           Inl (HTTPError 404 ''Not Found'' ''http://localhost:55672/api/aliveness-test/prod'')"
    by (simp add: do_call_answering fresh_def guest_def path_join_def)
  have b: "fst (do_call (answering 500 ''Internal Server Error'' [])
             (path_join (base_url (this fresh)) (''aliveness-test/'' @ ''prod'')) ''GET'' fresh) =
           Inl (HTTPError 500 ''Internal Server Error'' ''http://localhost:55672/api/aliveness-test/prod'')"
    by (simp add: do_call_answering fresh_def guest_def path_join_def)
  show ?thesis
    using is_alive_http_error [OF a] is_alive_http_error [OF b] by simp
qed



text \<open>
  Claim C9. Whenever \<open>is_alive\<close> returns, it returns \<^verbatim>\<open>True\<close>: \<open>do_call\<close> raises for
  every status other than 200, so the branch that returns \<^verbatim>\<open>False\<close> is never taken.
\<close>

theorem is_alive_returns_True:
  assumes "fst (is_alive L vhost s) = Inr b"
  shows "b = True"
  using assms
  by (auto simp: is_alive_fst do_call_fst split: sum.splits prod.splits if_splits error.splits)

theorem is_alive_returns_True_witness:
  "fst (is_alive (answering 200 ''OK'' ''{}'') ''%2F'' fresh) = Inr True \<and> True = True"
proof -
  have h: "fst (is_alive (answering 200 ''OK'' ''{}'') ''%2F'' fresh) = Inr True"
    by (simp add: is_alive_fst do_call_answering)
  from is_alive_returns_True [OF h] h show ?thesis
    by simp
qed

text \<open>
  Claim C10. \<open>purge_queue\<close> returns \<^verbatim>\<open>True\<close> exactly when the broker answers with status
  200 or 204; with any other status the \<^verbatim>\<open>HTTPError\<close> of \<open>do_call\<close> reaches the caller, and
  a failure of the transport reaches the caller as \<^verbatim>\<open>NetworkError\<close>.
\<close>

theorem purge_queue_outcomes:
  "(fst (purge_queue L vhost name s) = Inr True \<longleftrightarrow>
      (\<exists>resp content.
         request L (client (this s)) (wire s)
           (path_join (base_url (this s)) (''queues/'' @ vhost @ ''/'' @ name @ ''/contents''))
           ''DELETE'' = Inr (resp, content)
         \<and> (status resp = 200 \<or> status resp = 204)))
   \<and> (\<forall>resp content.
         request L (client (this s)) (wire s)
           (path_join (base_url (this s)) (''queues/'' @ vhost @ ''/'' @ name @ ''/contents''))
           ''DELETE'' = Inr (resp, content)
         \<and> status resp \<noteq> 200 \<and> status resp \<noteq> 204 \<longrightarrow>
         fst (purge_queue L vhost name s) =
           Inl (HTTPError (status resp) (reason resp)
             (path_join (base_url (this s)) (''queues/'' @ vhost @ ''/'' @ name @ ''/contents''))))
   \<and> (\<forall>out.
         request L (client (this s)) (wire s)
           (path_join (base_url (this s)) (''queues/'' @ vhost @ ''/'' @ name @ ''/contents''))
           ''DELETE'' = Inl out \<longrightarrow>
         fst (purge_queue L vhost name s) =
           Inl (NetworkError (''Error: '' @ exn_type out @ '' '' @ exn_str out)))"
  by (auto simp: purge_queue_fst do_call_fst split: sum.splits prod.splits if_splits error.splits)

theorem purge_queue_outcomes_witness:
  "fst (purge_queue (answering 204 ''No Content'' []) ''%2F'' ''jobs'' fresh) = Inr True
   \<and> fst (purge_queue (answering 200 ''OK'' []) ''%2F'' ''jobs'' fresh) = Inr True
   \<and> fst (purge_queue (answering 404 ''Not Found'' []) ''%2F'' ''jobs'' fresh) =
       Inl (HTTPError 404 ''Not Found'' ''http://localhost:55672/api/queues/%2F/jobs/contents'')
   \<and> fst (purge_queue unreachable ''%2F'' ''jobs'' fresh) =
       Inl (NetworkError ''Error: socket.error Connection refused'')"
  using purge_queue_outcomes [of "answering 204 ''No Content'' []" "''%2F''" "''jobs''" fresh]
    purge_queue_outcomes [of "answering 200 ''OK'' []" "''%2F''" "''jobs''" fresh]
    purge_queue_outcomes [of "answering 404 ''Not Found'' []" "''%2F''" "''jobs''" fresh]
    purge_queue_outcomes [of unreachable "''%2F''" "''jobs''" fresh]
  by (simp add: answering_def unreachable_def fresh_def guest_def path_join_def)

subsection \<open>Paths\<close>

text \<open>
  Every operation but one requests the URL of the specification: the base URL joined
  with the operation's entry of \<open>urls\<close>, its arguments in the placeholders. The one is
  \<open>get_connections\<close> with a name that is not empty.
\<close>

lemmas get_fetch = get_whoami_fetch get_overview_fetch get_all_vhosts_fetch get_channels_fetch
  get_queues_fetch get_exchanges_fetch get_queue_fetch get_exchange_fetch get_connections_fetch

lemma call_requests_spec_path:
  assumes "\<forall>n. op = Get_connections (Some n) \<longrightarrow> n = []"
  shows "\<exists>p. spec_path op = Inr p \<and>
           snd (call L op s) =
             s\<lparr>wire := wire s @ [(path_join (base_url (this s)) p, reqtype_of op)]\<rparr>"
proof (cases op)
  case (Get_queues vhost)
  then show ?thesis
    by (cases vhost)
      (simp_all add: spec_path_def and_then_def urls_item_simps fmt_templates fmt_plain
        returning_def get_queues_fetch fetch_snd)
next
  case (Get_exchanges vhost)
  then show ?thesis
    by (cases vhost)
      (simp_all add: spec_path_def and_then_def urls_item_simps fmt_templates fmt_plain
        returning_def get_exchanges_fetch fetch_snd)
next
  case (Get_connections name)
  with assms show ?thesis
    by (cases name)
      (simp_all add: spec_path_def and_then_def urls_item_simps fmt_plain
        returning_def get_connections_fetch fetch_snd)
qed (simp_all add: spec_path_def and_then_def urls_item_simps fmt_templates fmt_plain
      returning_def get_fetch fetch_snd get_users_snd is_alive_snd purge_queue_snd)

text \<open>
  The two examples of the specification, on an instance made by the constructor:
  \<^verbatim>\<open>get_queue(vhost, name)\<close> requests \<^verbatim>\<open><base>/queues/<vhost>/<name>\<close>, and \<^verbatim>\<open>is_alive()\<close>
  requests \<^verbatim>\<open><base>/aliveness-test/%2F\<close>.
\<close>

lemma get_queue_url_init:
  assumes "init server uname passwd = Inr c"
  shows "wire (snd (get_queue L vhost name \<lparr>this = c, wire = []\<rparr>)) =
     [(''http://'' @ server @ ''/api/queues/'' @ vhost @ ''/'' @ name, ''GET'')]"
  using assms by (auto simp: init_base_url get_queue_fetch fetch_snd path_join_def)

lemma is_alive_default_url_init:
  assumes "init server uname passwd = Inr c"
  shows "wire (snd (is_alive_default L \<lparr>this = c, wire = []\<rparr>)) =
     [(''http://'' @ server @ ''/api/aliveness-test/%2F'', ''GET'')]"
  using assms by (auto simp: init_base_url is_alive_default_def is_alive_snd path_join_def)

text \<open>
  Claim C4. For every operation and all string arguments, the URL requested is the base
  URL \<^verbatim>\<open>http://<server>/api\<close> joined with the operation's entry of \<open>urls\<close>, the arguments
  substituted for the placeholders. The source does so for every operation
  (\<open>call_requests_spec_path\<close>) except \<open>get_connections\<close> with a name: for the name
  \<^verbatim>\<open>conn1\<close> the path of the specification is \<^verbatim>\<open>connections/conn1\<close>, and the request that
  goes out is for \<^verbatim>\<open>connections/%s\<close>, the template itself.
\<close>

theorem get_connections_template_not_filled:
  "spec_path (Get_connections (Some ''conn1'')) = Inr ''connections/conn1''
   \<and> wire (snd (call (answering 200 ''OK'' ''{}'') (Get_connections (Some ''conn1'')) fresh)) =
       [(''http://localhost:55672/api/connections/%s'', ''GET'')]"
  by (simp add: spec_path_def and_then_def urls_item_simps fmt_templates
      returning_def get_connections_fetch fetch_snd fresh_def guest_def path_join_def)

text \<open>
  Claim C5. \<open>get_connections(name)\<close> is to request \<^verbatim>\<open><base>/connections/<name>\<close> for a
  name that is not \<^verbatim>\<open>None\<close>, and \<^verbatim>\<open><base>/connections\<close> for \<^verbatim>\<open>None\<close>, and to return the
  decoded body. The source looks the template up and never applies \<^verbatim>\<open>%\<close> to it: for the
  name \<^verbatim>\<open>amq.ctag-1\<close> it requests \<^verbatim>\<open><base>/connections/%s\<close> and returns the decoded body of
  whatever the broker answers to that; for \<^verbatim>\<open>None\<close> it requests \<^verbatim>\<open><base>/connections\<close>.
\<close>

theorem get_connections_by_name_request:
  "snd (get_connections (answering 200 ''OK'' ''{}'') (Some ''amq.ctag-1'') fresh) =
     \<lparr>this = guest, wire = [(''http://localhost:55672/api/connections/%s'', ''GET'')]\<rparr>
   \<and> fst (get_connections (answering 200 ''OK'' ''{}'') (Some ''amq.ctag-1'') fresh) = Inr ''{}''
   \<and> wire (snd (get_connections (answering 200 ''OK'' ''[]'') None fresh)) =
     [(''http://localhost:55672/api/connections'', ''GET'')]"
  by (simp add: get_connections_fetch fetch_snd fetch_fst do_call_fst
      decode_json_content_def answering_def fresh_def guest_def path_join_def)

subsection \<open>One request, and what becomes of its answer\<close>

text \<open>
  Every operation hands one request to the transport, and its result is a function of
  the answer to that request: the request is the last entry of the wire after the call.
\<close>

lemma call_snd_last:
  "snd (call L op s) =
     s\<lparr>wire := wire s @ [(fst (last (wire (snd (call L op s)))), reqtype_of op)]\<rparr>"
  by (cases op)
    (simp_all add: returning_def get_fetch fetch_snd get_users_snd is_alive_snd purge_queue_snd)

lemma call_transport_raises:
  assumes "request L (client (this s)) (wire s) (fst (last (wire (snd (call L op s)))))
             (reqtype_of op) = Inl out"
  shows "fst (call L op s) =
           Inl (NetworkError (''Error: '' @ exn_type out @ '' '' @ exn_str out))"
  using assms
  by (cases op)
    (simp_all add: returning_def get_fetch fetch_snd fetch_fst get_users_snd get_users_fst
      is_alive_snd is_alive_fst purge_queue_snd purge_queue_fst do_call_fst)

lemma call_http_error:
  assumes "request L (client (this s)) (wire s) (fst (last (wire (snd (call L op s)))))
             (reqtype_of op) = Inr (resp, content)"
    and "status resp \<noteq> 200" and "\<not> translated op (status resp)"
  shows "fst (call L op s) =
           Inl (HTTPError (status resp) (reason resp) (fst (last (wire (snd (call L op s))))))"
  using assms
  by (cases op)
    (simp_all add: returning_def get_fetch fetch_snd fetch_fst get_users_snd get_users_fst
      is_alive_snd is_alive_fst purge_queue_snd purge_queue_fst do_call_fst)

lemma call_ok_decodes:
  assumes "is_get op"
    and "request L (client (this s)) (wire s) (fst (last (wire (snd (call L op s)))))
             ''GET'' = Inr (resp, content)"
    and "status resp = 200"
  shows "fst (call L op s) = map_sum id Decoded (decode_json_content L content)"
  using assms
  by (cases op)
    (simp_all add: returning_def get_fetch fetch_snd fetch_fst get_users_snd get_users_fst
      do_call_fst)

lemma is_get_reqtype: "is_get op \<Longrightarrow> reqtype_of op = ''GET''"
  by (cases op) simp_all

text \<open>
  Claim C6. Each of the ten operations that return data (\<open>is_get\<close>) sends one \<^verbatim>\<open>GET\<close>
  request, and when that request is answered with status 200, the operation returns
  \<^verbatim>\<open>json.loads\<close> of the UTF-8 decoding of the body, and nothing else is done to it; an
  exception of either decoder leaves the operation as it is.
\<close>

theorem get_operations_decode:
  assumes "is_get op"
  shows "\<exists>url. snd (call L op s) = s\<lparr>wire := wire s @ [(url, ''GET'')]\<rparr>
           \<and> (\<forall>resp content.
                 request L (client (this s)) (wire s) url ''GET'' = Inr (resp, content) \<longrightarrow>
                 status resp = 200 \<longrightarrow>
                 fst (call L op s) =
                   (case decode L content of
                      Inl x \<Rightarrow> Inl (Raised x)
                    | Inr str_ct \<Rightarrow>
                        (case loads L str_ct of
                           Inl x \<Rightarrow> Inl (Raised x)
                         | Inr py_ct \<Rightarrow> Inr (Decoded py_ct))))"
proof (intro exI conjI allI impI)
  show "snd (call L op s) =
          s\<lparr>wire := wire s @ [(fst (last (wire (snd (call L op s)))), ''GET'')]\<rparr>"
    using call_snd_last [of L op s] assms by (simp add: is_get_reqtype)
next
  fix resp content
  assume "request L (client (this s)) (wire s) (fst (last (wire (snd (call L op s))))) ''GET'' =
            Inr (resp, content)"
    and "status resp = 200"
  with assms have "fst (call L op s) = map_sum id Decoded (decode_json_content L content)"
    by (rule call_ok_decodes)
  then show "fst (call L op s) =
               (case decode L content of
                  Inl x \<Rightarrow> Inl (Raised x)
                | Inr str_ct \<Rightarrow>
                    (case loads L str_ct of
                       Inl x \<Rightarrow> Inl (Raised x)
                     | Inr py_ct \<Rightarrow> Inr (Decoded py_ct)))"
    by (simp add: decode_json_content_def split: sum.splits)
qed

theorem get_operations_decode_witness:
  "fst (call (answering 200 ''OK'' ''[]'') Get_whoami fresh) = Inr (Decoded ''[]'')
   \<and> fst (call (answering 200 ''OK'' ''[]'') Get_users fresh) = Inr (Decoded ''[]'')
   \<and> fst (call (answering 200 ''OK'' ''[]'') Get_overview fresh) = Inr (Decoded ''[]'')
   \<and> fst (call (answering 200 ''OK'' ''[]'') Get_all_vhosts fresh) = Inr (Decoded ''[]'')
   \<and> fst (call (answering 200 ''OK'' ''[]'') (Get_queues (Some ''%2F'')) fresh) = Inr (Decoded ''[]'')
   \<and> fst (call (answering 200 ''OK'' ''[]'') (Get_queue ''%2F'' ''jobs'') fresh) = Inr (Decoded ''[]'')
   \<and> fst (call (answering 200 ''OK'' ''[]'') (Get_exchanges None) fresh) = Inr (Decoded ''[]'')
   \<and> fst (call (answering 200 ''OK'' ''[]'') (Get_exchange ''%2F'' ''amq.direct'') fresh) =
       Inr (Decoded ''[]'')
   \<and> fst (call (answering 200 ''OK'' ''[]'') (Get_connections None) fresh) = Inr (Decoded ''[]'')
   \<and> fst (call (answering 200 ''OK'' ''[]'') Get_channels fresh) = Inr (Decoded ''[]'')"
proof -
  have r: "fst (call (answering 200 ''OK'' ''[]'') op fresh) = Inr (Decoded ''[]'')"
    if "is_get op" for op
    using get_operations_decode [OF that, of "answering 200 ''OK'' ''[]''" fresh]
    by (auto simp: answering_def)
  show ?thesis
    by (intro conjI r) simp_all
qed

text \<open>
  Claim C7. Every public operation hands one request to the transport and no second one,
  and what the caller gets comes from the answer to that one request: when the
  transport raises on it, the caller gets the \<^verbatim>\<open>NetworkError\<close> made of that exception;
  when it is answered with a status other than 200 that the operation does not
  translate, the caller gets the \<^verbatim>\<open>HTTPError\<close> of that answer. Nothing is retried: a
  transport that fails on the first request and would answer a second one still gives
  the caller the failure.
\<close>

theorem one_request_per_call:
  "\<exists>url. snd (call L op s) = s\<lparr>wire := wire s @ [(url, reqtype_of op)]\<rparr>
     \<and> (\<forall>out. request L (client (this s)) (wire s) url (reqtype_of op) = Inl out \<longrightarrow>
           fst (call L op s) =
             Inl (NetworkError (''Error: '' @ exn_type out @ '' '' @ exn_str out)))
     \<and> (\<forall>resp content.
           request L (client (this s)) (wire s) url (reqtype_of op) = Inr (resp, content) \<longrightarrow>
           status resp \<noteq> 200 \<longrightarrow> \<not> translated op (status resp) \<longrightarrow>
           fst (call L op s) = Inl (HTTPError (status resp) (reason resp) url))"
proof (intro exI conjI allI impI)
  show "snd (call L op s) =
          s\<lparr>wire := wire s @ [(fst (last (wire (snd (call L op s)))), reqtype_of op)]\<rparr>"
    by (rule call_snd_last)
next
  fix out
  assume "request L (client (this s)) (wire s) (fst (last (wire (snd (call L op s)))))
            (reqtype_of op) = Inl out"
  then show "fst (call L op s) =
               Inl (NetworkError (''Error: '' @ exn_type out @ '' '' @ exn_str out))"
    by (rule call_transport_raises)
next
  fix resp content
  assume "request L (client (this s)) (wire s) (fst (last (wire (snd (call L op s)))))
            (reqtype_of op) = Inr (resp, content)"
    and "status resp \<noteq> 200" and "\<not> translated op (status resp)"
  then show "fst (call L op s) =
               Inl (HTTPError (status resp) (reason resp) (fst (last (wire (snd (call L op s))))))"
    by (rule call_http_error)
qed

theorem one_request_per_call_witness:
  "call (first_then (Inl \<lparr>exn_type = ''socket.error'', exn_str = ''timed out''\<rparr>))
       Get_overview fresh =
     (Inl (NetworkError ''Error: socket.error timed out''),
      \<lparr>this = guest, wire = [(''http://localhost:55672/api/overview'', ''GET'')]\<rparr>)
   \<and> call (first_then (Inr (\<lparr>status = 500, reason = ''Internal Server Error''\<rparr>, [])))
       (Purge_queue ''%2F'' ''jobs'') fresh =
     (Inl (HTTPError 500 ''Internal Server Error''
            ''http://localhost:55672/api/queues/%2F/jobs/contents''),
      \<lparr>this = guest,
       wire = [(''http://localhost:55672/api/queues/%2F/jobs/contents'', ''DELETE'')]\<rparr>)"
proof -
  let ?down = "first_then (Inl \<lparr>exn_type = ''socket.error'', exn_str = ''timed out''\<rparr>)"
  let ?err = "first_then (Inr (\<lparr>status = 500, reason = ''Internal Server Error''\<rparr>, []))"
  obtain u where
    "\<forall>out. request ?down (client (this fresh)) (wire fresh) u (reqtype_of Get_overview) = Inl out \<longrightarrow>
       fst (call ?down Get_overview fresh) =
         Inl (NetworkError (''Error: '' @ exn_type out @ '' '' @ exn_str out))"
    using one_request_per_call [of ?down Get_overview fresh] by blast
  then have a: "fst (call ?down Get_overview fresh) =
                  Inl (NetworkError ''Error: socket.error timed out'')"
    by (simp add: first_then_def fresh_def)
  have b: "snd (call ?down Get_overview fresh) =
             \<lparr>this = guest, wire = [(''http://localhost:55672/api/overview'', ''GET'')]\<rparr>"
    by (simp add: returning_def get_overview_fetch fetch_snd fresh_def guest_def path_join_def)
  obtain v where
    v: "snd (call ?err (Purge_queue ''%2F'' ''jobs'') fresh) =
          fresh\<lparr>wire := wire fresh @ [(v, reqtype_of (Purge_queue ''%2F'' ''jobs''))]\<rparr>"
    and h: "\<forall>resp content.
          request ?err (client (this fresh)) (wire fresh) v
            (reqtype_of (Purge_queue ''%2F'' ''jobs'')) = Inr (resp, content) \<longrightarrow>
          status resp \<noteq> 200 \<longrightarrow> \<not> translated (Purge_queue ''%2F'' ''jobs'') (status resp) \<longrightarrow>
          fst (call ?err (Purge_queue ''%2F'' ''jobs'') fresh) =
            Inl (HTTPError (status resp) (reason resp) v)"
    using one_request_per_call [of ?err "Purge_queue ''%2F'' ''jobs''" fresh] by blast
  have d: "snd (call ?err (Purge_queue ''%2F'' ''jobs'') fresh) =
             \<lparr>this = guest,
              wire = [(''http://localhost:55672/api/queues/%2F/jobs/contents'', ''DELETE'')]\<rparr>"
    by (simp add: returning_def purge_queue_snd fresh_def guest_def path_join_def)
  from v d have "v = ''http://localhost:55672/api/queues/%2F/jobs/contents''"
    by (simp add: fresh_def)
  with h have c: "fst (call ?err (Purge_queue ''%2F'' ''jobs'') fresh) =
                    Inl (HTTPError 500 ''Internal Server Error''
                      ''http://localhost:55672/api/queues/%2F/jobs/contents'')"
    by (simp add: first_then_def fresh_def)
  from a b c d show ?thesis
    by (simp add: prod_eq_iff)
qed

subsection \<open>The instance\<close>

text \<open>
  Claim C8. Every public operation leaves the instance as it was: \<^verbatim>\<open>client\<close> and
  \<^verbatim>\<open>base_url\<close> are the same after the call, whether it returned or raised, and the
  instance has no other field.
\<close>

theorem instance_unchanged:
  "this (snd (call L op s)) = this s"
  by (cases op)
    (simp_all add: returning_def get_fetch fetch_snd get_users_snd is_alive_snd purge_queue_snd)

end
